theory Spec2Isabelle
  imports Main
begin

section \<open>Data model (src/auth/types.ts)\<close>

text \<open>
  \<^verbatim>\<open>AuthResult\<close> is the record the callback page writes for the polling initiator.
  \<^verbatim>\<open>error\<close> is an optional field; the two numbers are millisecond timestamps.
\<close>

record AuthResult =
  success :: bool
  error :: "string option"
  timestamp :: int
  expiry :: int

text \<open>
  \<^verbatim>\<open>StoredState.providerOptions\<close>. All five fields are strings in the interface.
\<close>

record ProviderOptions =
  serverUrl :: string
  storageKeyPrefix :: string
  clientName :: string
  clientUri :: string
  callbackUrl :: string

text \<open>
  \<^verbatim>\<open>StoredState\<close> as the handler meets it at run time. The value comes out of
  \<^verbatim>\<open>JSON.parse\<close> under an unchecked cast, so every field the handler reads may be
  missing (\<open>None\<close> is JavaScript's \<^verbatim>\<open>undefined\<close>); the handler itself tests
  \<^verbatim>\<open>expiry\<close>, \<^verbatim>\<open>providerOptions\<close> and \<^verbatim>\<open>authSessionId\<close> for
  that. The field \<^verbatim>\<open>metadata\<close> has a type of the SDK and is never read by the handler;
  it is left out.
\<close>

record StoredState =
  expiry :: "int option"
  serverUrlHash :: "string option"
  authSessionId :: "string option"
  providerOptions :: "ProviderOptions option"

section \<open>The browser around the handler\<close>

text \<open>\<^verbatim>\<open>localStorage\<close>: string keys, string values; \<^verbatim>\<open>getItem\<close> of a missing key is
  \<^verbatim>\<open>null\<close>.\<close>

type_synonym storage = "string \<rightharpoonup> string"

definition getItem :: "storage \<Rightarrow> string \<Rightarrow> string option" where
  "getItem st k = st k"

definition setItem :: "string \<Rightarrow> string \<Rightarrow> storage \<Rightarrow> storage" where
  "setItem k v st = st(k \<mapsto> v)"

definition removeItem :: "string \<Rightarrow> storage \<Rightarrow> storage" where
  "removeItem k st = st(k := None)"

text \<open>
  What \<^verbatim>\<open>JSON.parse(storedStateJSON)\<close> can do: throw a SyntaxError, return
  \<^verbatim>\<open>null\<close>, or return a value whose properties can be read. A JSON number, string
  or boolean has none of the properties the handler reads, so it behaves as an object with
  every field missing.
\<close>

datatype parsed = JsonSyntaxError | JsonNull | JsonObject StoredState

text \<open>
  \<^verbatim>\<open>window.opener\<close>: absent, present but closed, present and accepting the message,
  or present with \<^verbatim>\<open>postMessage\<close> throwing.
\<close>

datatype opener = NoOpener | OpenerClosed | OpenerAccepts | OpenerThrows

text \<open>The message posted to the opener; its \<^verbatim>\<open>type\<close> is always
  \<^verbatim>\<open>'mcp_auth_callback'\<close>, the arguments are \<^verbatim>\<open>success\<close> and \<^verbatim>\<open>error\<close>.\<close>

datatype callback_message = McpAuthCallback bool "string option"

text \<open>
  What the page is given when the handler starts: the four query parameters as
  \<^verbatim>\<open>URLSearchParams.get\<close> returns them (already percent-decoded; \<open>None\<close> is
  \<^verbatim>\<open>null\<close>, and \<^verbatim>\<open>?error=\<close> gives \<open>Some []\<close>), the opener, whether
  assigning \<^verbatim>\<open>document.body.innerHTML\<close> succeeds, and the readings of
  \<^verbatim>\<open>Date.now()\<close> in the order the handler takes them: one for the expiry check
  (line 48), one for \<^verbatim>\<open>timestamp\<close> and one for \<^verbatim>\<open>expiry\<close> of the result
  (lines 80-81 and 121-122; a path takes only one of the two pairs).
\<close>

record Page =
  code :: "string option"
  state :: "string option"
  error :: "string option"
  errorDescription :: "string option"
  opener :: opener
  bodyWritable :: bool
  now_validate :: int
  now_timestamp :: int
  now_expiry :: int

text \<open>
  \<^verbatim>\<open>new BrowserOAuthClientProvider(serverUrl, providerOptions)\<close> is determined by its
  two arguments, which together are the stored \<^verbatim>\<open>providerOptions\<close>; the model
  lets the record stand for the object.
\<close>

type_synonym BrowserOAuthClientProvider = ProviderOptions

text \<open>
  \<^verbatim>\<open>await auth(provider, {serverUrl, authorizationCode})\<close> either resolves to a status
  string or rejects; \<open>Rejected m\<close> carries the text the handler derives from the thrown value
  (\<^verbatim>\<open>err.message\<close>, or \<^verbatim>\<open>String(err)\<close>).
\<close>

datatype auth_reply = Resolved string | Rejected string

text \<open>
  The code the handler calls and that is not part of this repository's two files:
  \<^verbatim>\<open>JSON.parse\<close>, \<^verbatim>\<open>JSON.stringify\<close>, the SDK's \<^verbatim>\<open>auth\<close> (which may
  also write to \<^verbatim>\<open>localStorage\<close>, for instance to save tokens) and
  \<^verbatim>\<open>provider.getKey\<close>. They are parameters of the model.
\<close>

record Collaborators =
  JSON_parse :: "string \<Rightarrow> parsed"
  JSON_stringify :: "AuthResult \<Rightarrow> string"
  auth :: "BrowserOAuthClientProvider \<Rightarrow> string \<Rightarrow> storage \<Rightarrow> auth_reply \<times> storage"
  getKey :: "BrowserOAuthClientProvider \<Rightarrow> string \<Rightarrow> string"

text \<open>
  The handler's mutable surroundings and locals. \<open>localStorage\<close> is the store;
  \<open>published\<close> lists the \<^verbatim>\<open>setItem\<close> calls of the handler that wrote an
  \<^verbatim>\<open>AuthResult\<close> (key and record), \<open>posted\<close> the messages the opener accepted,
  \<open>exchanges\<close> the calls of \<^verbatim>\<open>auth\<close>; \<open>body\<close> is the error text put into
  \<^verbatim>\<open>document.body.innerHTML\<close> (the markup around it and the stack trace are not
  modelled), \<open>closing\<close> says that \<^verbatim>\<open>window.close\<close> was scheduled.
  \<open>storedStateData\<close> and \<open>provider\<close> are the two \<^verbatim>\<open>let\<close> variables declared
  before the \<^verbatim>\<open>try\<close>, \<open>None\<close> for \<^verbatim>\<open>null\<close>.
\<close>

record Frame =
  localStorage :: storage
  published :: "(string \<times> AuthResult) list"
  posted :: "callback_message list"
  exchanges :: "(BrowserOAuthClientProvider \<times> string) list"
  body :: "string option"
  closing :: bool
  storedStateData :: "StoredState option"
  provider :: "BrowserOAuthClientProvider option"

text \<open>How an invocation ends: the success branch ran to its end, the \<^verbatim>\<open>catch\<close> block
  ran to its end for the given error message, or an exception left the handler.\<close>

datatype terminal = Completed_success | Completed_failure string | Uncaught string

section \<open>The handler (src/auth/callback.ts)\<close>

text \<open>JavaScript truthiness of a value that is a string or \<^verbatim>\<open>null\<close>/\<^verbatim>\<open>undefined\<close>.\<close>

definition truthy :: "string option \<Rightarrow> bool" where
  "truthy v = (case v of None \<Rightarrow> False | Some s \<Rightarrow> s \<noteq> [])"

text \<open>\<^verbatim>\<open>x || d\<close> on such a value.\<close>

definition orElse :: "string option \<Rightarrow> string \<Rightarrow> string" where
  "orElse v d = (case v of None \<Rightarrow> d | Some s \<Rightarrow> if s = [] then d else s)"

text \<open>Line 22: \<^verbatim>\<open>state ? `mcp:auth:state_${state}` : null\<close>.\<close>

definition stateKey :: "string option \<Rightarrow> string option" where
  "stateKey st = (case st of None \<Rightarrow> None
     | Some s \<Rightarrow> if s = [] then None else Some (''mcp:auth:state_'' @ s))"

text \<open>Lines 77 and 117.\<close>

definition authResultKey :: "ProviderOptions \<Rightarrow> string \<Rightarrow> string" where
  "authResultKey po sid = storageKeyPrefix po @ '':auth_result_'' @ sid"

text \<open>The error messages of the \<^verbatim>\<open>throw\<close> statements.\<close>

definition oauthErrorMessage :: "string \<Rightarrow> string option \<Rightarrow> string" where
  "oauthErrorMessage e d = ''OAuth error: '' @ e @ '' - '' @ orElse d ''No description provided.''"

definition missingCodeMessage :: string where
  "missingCodeMessage = ''Authorization code not found in callback query parameters.''"

definition missingStateMessage :: string where
  "missingStateMessage = ''State parameter not found or invalid in callback query parameters.''"

definition unknownStateMessage :: "string \<Rightarrow> string" where
  "unknownStateMessage s = ''Invalid or expired state parameter '' @ [CHR 0x22] @ s @ [CHR 0x22]
     @ ''. No matching state found in storage.''"

definition parseFailureMessage :: string where
  "parseFailureMessage = ''Failed to parse stored OAuth state.''"

definition expiredMessage :: string where
  "expiredMessage = ''OAuth state has expired. Please try initiating authentication again.''"

definition missingOptionsMessage :: string where
  "missingOptionsMessage = ''Stored state is missing required provider options.''"

definition unexpectedResultMessage :: "string \<Rightarrow> string" where
  "unexpectedResultMessage r = ''Unexpected result from authentication library: '' @ r"

text \<open>The messages of the TypeErrors the engine raises on reading a property of
  \<^verbatim>\<open>null\<close> (line 48) or of \<^verbatim>\<open>undefined\<close> (line 117); the wording is V8's.\<close>

definition nullExpiryMessage :: string where
  "nullExpiryMessage = ''Cannot read properties of null (reading '' @ [CHR 0x27] @ ''expiry''
     @ [CHR 0x27] @ '')''"

definition undefinedPrefixMessage :: string where
  "undefinedPrefixMessage = ''Cannot read properties of undefined (reading '' @ [CHR 0x27]
     @ ''storageKeyPrefix'' @ [CHR 0x27] @ '')''"

text \<open>Line 48: \<^verbatim>\<open>!storedStateData.expiry || storedStateData.expiry < Date.now()\<close>.\<close>

definition expiredAt :: "StoredState \<Rightarrow> int \<Rightarrow> bool" where
  "expiredAt sd now = (case StoredState.expiry sd of None \<Rightarrow> True
     | Some e \<Rightarrow> e = 0 \<or> e < now)"

text \<open>\<^verbatim>\<open>localStorage.setItem(authResultKey, JSON.stringify(authResultData))\<close>.\<close>

definition publish :: "Collaborators \<Rightarrow> string \<Rightarrow> AuthResult \<Rightarrow> Frame \<Rightarrow> Frame" where
  "publish K k r f = f\<lparr>localStorage := setItem k (JSON_stringify K r) (localStorage f),
                        published := published f @ [(k, r)]\<rparr>"

text \<open>Lines 90-97 and 131-138: the message is sent when there is an opener that is not
  closed; an exception of \<^verbatim>\<open>postMessage\<close> is caught and logged.\<close>

definition postToOpener :: "opener \<Rightarrow> callback_message \<Rightarrow> Frame \<Rightarrow> Frame" where
  "postToOpener w m f = (case w of
       NoOpener \<Rightarrow> f
     | OpenerClosed \<Rightarrow> f
     | OpenerAccepts \<Rightarrow> f\<lparr>posted := posted f @ [m]\<rparr>
     | OpenerThrows \<Rightarrow> f)"

text \<open>Lines 72-105, the branch for \<^verbatim>\<open>authResult === 'AUTHORIZED'\<close>.\<close>

definition successBranch ::
  "Collaborators \<Rightarrow> Page \<Rightarrow> string \<Rightarrow> StoredState \<Rightarrow> ProviderOptions \<Rightarrow> Frame \<Rightarrow> Frame" where
  "successBranch K P key sd po f =
    (let f1 = (if truthy (authSessionId sd)
               then publish K (authResultKey po (orElse (authSessionId sd) []))
                      \<lparr>success = True, AuthResult.error = None, timestamp = now_timestamp P,
                       AuthResult.expiry = now_expiry P + 1000 * 60 * 5\<rparr> f
               else f);
         f2 = postToOpener (opener P) (McpAuthCallback True None) f1;
         f3 = f2\<lparr>closing := True\<rparr>
     in f3\<lparr>localStorage := removeItem key (localStorage f3)\<rparr>)"

text \<open>
  Lines 24-110, the body of the \<^verbatim>\<open>try\<close>. The result is the frame at the point where
  the body ended, with \<open>Some m\<close> when it ended by throwing an error of message \<open>m\<close>.
\<close>

definition tryBlock :: "Collaborators \<Rightarrow> Page \<Rightarrow> Frame \<Rightarrow> string option \<times> Frame" where
  "tryBlock K P f =
    (if truthy (error P) then (Some (oauthErrorMessage (orElse (error P) []) (errorDescription P)), f)
     else if \<not> truthy (code P) then (Some missingCodeMessage, f)
     else case stateKey (state P) of
       None \<Rightarrow> (Some missingStateMessage, f)
     | Some key \<Rightarrow>
        (if \<not> truthy (getItem (localStorage f) key)
         then (Some (unknownStateMessage (orElse (state P) [])), f)
         else case JSON_parse K (orElse (getItem (localStorage f) key) []) of
           JsonSyntaxError \<Rightarrow> (Some parseFailureMessage, f)
         | JsonNull \<Rightarrow> (Some nullExpiryMessage, f)
         | JsonObject sd \<Rightarrow>
            (let f1 = f\<lparr>storedStateData := Some sd\<rparr> in
             if expiredAt sd (now_validate P)
             then (Some expiredMessage, f1\<lparr>localStorage := removeItem key (localStorage f1)\<rparr>)
             else case providerOptions sd of
               None \<Rightarrow> (Some missingOptionsMessage, f1)
             | Some po \<Rightarrow>
                (let f2 = f1\<lparr>provider := Some po\<rparr>;
                     (reply, st) = auth K po (orElse (code P) []) (localStorage f2);
                     f3 = f2\<lparr>localStorage := st,
                             exchanges := exchanges f2 @ [(po, orElse (code P) [])]\<rparr>
                 in case reply of
                      Rejected m \<Rightarrow> (Some m, f3)
                    | Resolved r \<Rightarrow>
                        if r = ''AUTHORIZED'' then (None, successBranch K P key sd po f3)
                        else (Some (unexpectedResultMessage r), f3)))))"

text \<open>
  Lines 115-128: the error result is written when \<^verbatim>\<open>storedStateData?.authSessionId\<close> is
  truthy. The key is built from \<^verbatim>\<open>storedStateData.providerOptions.storageKeyPrefix\<close>;
  with \<^verbatim>\<open>providerOptions\<close> missing that expression throws a TypeError, and it stands
  in the \<^verbatim>\<open>catch\<close> block, outside every \<^verbatim>\<open>try\<close>: \<open>Inl\<close> is that exception.
\<close>

definition publishError :: "Collaborators \<Rightarrow> Page \<Rightarrow> string \<Rightarrow> Frame \<Rightarrow> string + Frame" where
  "publishError K P errorMessage f =
    (case storedStateData f of
       None \<Rightarrow> Inr f
     | Some sd \<Rightarrow>
        if truthy (authSessionId sd) then
          (case providerOptions sd of
             None \<Rightarrow> Inl undefinedPrefixMessage
           | Some po \<Rightarrow> Inr (publish K (authResultKey po (orElse (authSessionId sd) []))
                \<lparr>success = False, AuthResult.error = Some errorMessage,
                 timestamp = now_timestamp P,
                 AuthResult.expiry = now_expiry P + 1000 * 60 * 5\<rparr> f))
        else Inr f)"

text \<open>Lines 140-156: the error page; a failure to write it is caught and logged.\<close>

definition displayError :: "Page \<Rightarrow> string \<Rightarrow> Frame \<Rightarrow> Frame" where
  "displayError P errorMessage f = (if bodyWritable P then f\<lparr>body := Some errorMessage\<rparr> else f)"

text \<open>Lines 157-166: the clean-up at the end of the \<^verbatim>\<open>catch\<close> block.\<close>

definition cleanup :: "Collaborators \<Rightarrow> string option \<Rightarrow> Frame \<Rightarrow> Frame" where
  "cleanup K key f =
    (let f1 = (case key of None \<Rightarrow> f
                 | Some k \<Rightarrow> f\<lparr>localStorage := removeItem k (localStorage f)\<rparr>)
     in case provider f1 of
          None \<Rightarrow> f1
        | Some p \<Rightarrow> f1\<lparr>localStorage :=
            removeItem (getKey K p ''last_auth_url'')
              (removeItem (getKey K p ''code_verifier'') (localStorage f1))\<rparr>)"

text \<open>Lines 111-167, the \<^verbatim>\<open>catch\<close> block.\<close>

definition catchBlock ::
  "Collaborators \<Rightarrow> Page \<Rightarrow> string \<Rightarrow> Frame \<Rightarrow> terminal \<times> Frame" where
  "catchBlock K P errorMessage f =
    (case publishError K P errorMessage f of
       Inl m \<Rightarrow> (Uncaught m, f)
     | Inr f1 \<Rightarrow>
        (let f2 = postToOpener (opener P) (McpAuthCallback False (Some errorMessage)) f1;
             f3 = displayError P errorMessage f2
         in (Completed_failure errorMessage, cleanup K (stateKey (state P)) f3)))"

text \<open>The frame at line 24: the store as found, nothing done yet, both locals \<^verbatim>\<open>null\<close>.\<close>

definition initialFrame :: "storage \<Rightarrow> Frame" where
  "initialFrame st = \<lparr>localStorage = st, published = [], posted = [], exchanges = [],
     body = None, closing = False, storedStateData = None, provider = None\<rparr>"

text \<open>\<^verbatim>\<open>onMcpAuthorization\<close>: the \<^verbatim>\<open>try\<close> body, then the \<^verbatim>\<open>catch\<close> block if it
  threw.\<close>

definition onMcpAuthorization :: "Collaborators \<Rightarrow> Page \<Rightarrow> storage \<Rightarrow> terminal \<times> Frame" where
  "onMcpAuthorization K P st =
    (case tryBlock K P (initialFrame st) of
       (None, f) \<Rightarrow> (Completed_success, f)
     | (Some errorMessage, f) \<Rightarrow> catchBlock K P errorMessage f)"

section \<open>Sample inputs\<close>

text \<open>
  Concrete collaborators, records and stores at which the theorems below are instantiated.
  \<open>stubCollaborators p r\<close> parses the one stored blob to \<open>p\<close> and anything else to a
  syntax error; its \<^verbatim>\<open>auth\<close> answers \<open>r\<close> after saving the code under
  \<^verbatim>\<open>tokens\<close>.
\<close>

definition stubCollaborators :: "parsed \<Rightarrow> auth_reply \<Rightarrow> Collaborators" where
  "stubCollaborators p r = \<lparr>
     JSON_parse = (\<lambda>s. if s = ''{stored state}'' then p else JsonSyntaxError),
     JSON_stringify = (\<lambda>a. if success a then ''{ok}'' else ''{failed}''),
     auth = (\<lambda>pr c st. (r, st(''tokens'' \<mapsto> c))),
     getKey = (\<lambda>pr suffix. storageKeyPrefix pr @ ''_'' @ suffix)\<rparr>"

definition sampleOptions :: ProviderOptions where
  "sampleOptions = \<lparr>serverUrl = ''https://mcp.example/sse'', storageKeyPrefix = ''mcp:auth'',
     clientName = ''demo'', clientUri = ''https://app.example'',
     callbackUrl = ''https://app.example/oauth/callback''\<rparr>"

definition sampleState :: "int \<Rightarrow> string option \<Rightarrow> ProviderOptions option \<Rightarrow> StoredState" where
  "sampleState e sid po = \<lparr>StoredState.expiry = Some e, serverUrlHash = Some ''abc123'',
     authSessionId = sid, providerOptions = po\<rparr>"

definition samplePage ::
  "string option \<Rightarrow> string option \<Rightarrow> string option \<Rightarrow> string option \<Rightarrow> int \<Rightarrow> Page" where
  "samplePage c s e d t = \<lparr>code = c, state = s, error = e, errorDescription = d,
     opener = OpenerAccepts, bodyWritable = True,
     now_validate = t, now_timestamp = t, now_expiry = t\<rparr>"

definition sampleStore :: storage where
  "sampleStore = [''mcp:auth:state_s1'' \<mapsto> ''{stored state}'',
                  ''mcp:auth_code_verifier'' \<mapsto> ''v3r1f13r'',
                  ''mcp:auth_last_auth_url'' \<mapsto> ''https://idp.example/authorize'']"

lemmas sample_defs = stubCollaborators_def sampleOptions_def sampleState_def samplePage_def
  sampleStore_def

section \<open>The steps of the handler\<close>

lemmas handler_defs = onMcpAuthorization_def tryBlock_def catchBlock_def publishError_def
  successBranch_def cleanup_def displayError_def postToOpener_def publish_def initialFrame_def
  stateKey_def truthy_def orElse_def getItem_def setItem_def removeItem_def expiredAt_def
  authResultKey_def

lemmas message_defs = oauthErrorMessage_def missingCodeMessage_def missingStateMessage_def
  unknownStateMessage_def parseFailureMessage_def expiredMessage_def missingOptionsMessage_def
  unexpectedResultMessage_def nullExpiryMessage_def undefinedPrefixMessage_def

lemmas store_defs = getItem_def setItem_def removeItem_def
lemmas js_defs = truthy_def orElse_def stateKey_def

lemma truthy_Some: "truthy (Some s) = (s \<noteq> [])"
  by (simp add: truthy_def)

lemma truthy_cases: "truthy v \<Longrightarrow> \<exists>s. v = Some s \<and> s \<noteq> []"
  by (cases v) (simp_all add: truthy_def)

lemma tryBlock_oauth:
  assumes "error P = Some e" and "e \<noteq> []"
  shows "tryBlock K P f = (Some (oauthErrorMessage e (errorDescription P)), f)"
  using assms by (simp add: tryBlock_def js_defs)

lemma tryBlock_nocode:
  assumes "\<not> truthy (error P)" and "\<not> truthy (code P)"
  shows "tryBlock K P f = (Some missingCodeMessage, f)"
  using assms by (simp add: tryBlock_def)

lemma tryBlock_nostate:
  assumes "\<not> truthy (error P)" and "truthy (code P)" and "\<not> truthy (state P)"
  shows "tryBlock K P f = (Some missingStateMessage, f)"
  using assms by (simp add: tryBlock_def js_defs split: option.splits)

lemma tryBlock_unknown:
  assumes "\<not> truthy (error P)" and "truthy (code P)" and "state P = Some s" and "s \<noteq> []"
    and "\<not> truthy (getItem (localStorage f) (''mcp:auth:state_'' @ s))"
  shows "tryBlock K P f = (Some (unknownStateMessage s), f)"
  using assms by (simp add: tryBlock_def stateKey_def orElse_def)

lemma tryBlock_unparsable:
  assumes "\<not> truthy (error P)" and "truthy (code P)" and "state P = Some s" and "s \<noteq> []"
    and "getItem (localStorage f) (''mcp:auth:state_'' @ s) = Some json" and "json \<noteq> []"
    and "JSON_parse K json = JsonSyntaxError"
  shows "tryBlock K P f = (Some parseFailureMessage, f)"
  using assms by (simp add: tryBlock_def stateKey_def orElse_def truthy_Some)

lemma tryBlock_null:
  assumes "\<not> truthy (error P)" and "truthy (code P)" and "state P = Some s" and "s \<noteq> []"
    and "getItem (localStorage f) (''mcp:auth:state_'' @ s) = Some json" and "json \<noteq> []"
    and "JSON_parse K json = JsonNull"
  shows "tryBlock K P f = (Some nullExpiryMessage, f)"
  using assms by (simp add: tryBlock_def stateKey_def orElse_def truthy_Some)

lemma tryBlock_expired:
  assumes "\<not> truthy (error P)" and "truthy (code P)" and "state P = Some s" and "s \<noteq> []"
    and "getItem (localStorage f) (''mcp:auth:state_'' @ s) = Some json" and "json \<noteq> []"
    and "JSON_parse K json = JsonObject sd"
    and "expiredAt sd (now_validate P)"
  shows "tryBlock K P f = (Some expiredMessage,
           f\<lparr>storedStateData := Some sd,
              localStorage := removeItem (''mcp:auth:state_'' @ s) (localStorage f)\<rparr>)"
  using assms by (simp add: tryBlock_def stateKey_def orElse_def truthy_Some Let_def)

lemma tryBlock_nooptions:
  assumes "\<not> truthy (error P)" and "truthy (code P)" and "state P = Some s" and "s \<noteq> []"
    and "getItem (localStorage f) (''mcp:auth:state_'' @ s) = Some json" and "json \<noteq> []"
    and "JSON_parse K json = JsonObject sd"
    and "\<not> expiredAt sd (now_validate P)"
    and "providerOptions sd = None"
  shows "tryBlock K P f = (Some missingOptionsMessage, f\<lparr>storedStateData := Some sd\<rparr>)"
  using assms by (simp add: tryBlock_def stateKey_def orElse_def truthy_Some Let_def)

lemma tryBlock_exchange:
  assumes "\<not> truthy (error P)" and "code P = Some c" and "c \<noteq> []"
    and "state P = Some s" and "s \<noteq> []"
    and "getItem (localStorage f) (''mcp:auth:state_'' @ s) = Some json" and "json \<noteq> []"
    and "JSON_parse K json = JsonObject sd"
    and "\<not> expiredAt sd (now_validate P)"
    and "providerOptions sd = Some po"
    and "auth K po c (localStorage f) = (reply, st')"
  shows "tryBlock K P f =
    (case reply of
       Rejected m \<Rightarrow> (Some m,
          f\<lparr>storedStateData := Some sd, provider := Some po, localStorage := st',
            exchanges := exchanges f @ [(po, c)]\<rparr>)
     | Resolved r \<Rightarrow>
        if r = ''AUTHORIZED''
        then (None, successBranch K P (''mcp:auth:state_'' @ s) sd po
               (f\<lparr>storedStateData := Some sd, provider := Some po, localStorage := st',
                  exchanges := exchanges f @ [(po, c)]\<rparr>))
        else (Some (unexpectedResultMessage r),
          f\<lparr>storedStateData := Some sd, provider := Some po, localStorage := st',
            exchanges := exchanges f @ [(po, c)]\<rparr>))"
  using assms
  by (simp add: tryBlock_def stateKey_def orElse_def truthy_Some Let_def split: auth_reply.splits)


lemma tryBlock_cases:
  obtains (oauth) e where "error P = Some e" and "e \<noteq> []"
  | (nocode) "\<not> truthy (error P)" and "\<not> truthy (code P)"
  | (nostate) "\<not> truthy (error P)" and "truthy (code P)" and "\<not> truthy (state P)"
  | (unknown) s where "\<not> truthy (error P)" and "truthy (code P)" and "state P = Some s" and "s \<noteq> []"
      and "\<not> truthy (getItem st (''mcp:auth:state_'' @ s))"
  | (unparsable) s json where "\<not> truthy (error P)" and "truthy (code P)" and "state P = Some s" and "s \<noteq> []"
      and "getItem st (''mcp:auth:state_'' @ s) = Some json" and "json \<noteq> []"
      and "JSON_parse K json = JsonSyntaxError"
  | (isnull) s json where "\<not> truthy (error P)" and "truthy (code P)" and "state P = Some s" and "s \<noteq> []"
      and "getItem st (''mcp:auth:state_'' @ s) = Some json" and "json \<noteq> []"
      and "JSON_parse K json = JsonNull"
  | (expired) s json sd where "\<not> truthy (error P)" and "truthy (code P)" and "state P = Some s" and "s \<noteq> []"
      and "getItem st (''mcp:auth:state_'' @ s) = Some json" and "json \<noteq> []"
      and "JSON_parse K json = JsonObject sd" and "expiredAt sd (now_validate P)"
  | (nooptions) s json sd where "\<not> truthy (error P)" and "truthy (code P)" and "state P = Some s" and "s \<noteq> []"
      and "getItem st (''mcp:auth:state_'' @ s) = Some json" and "json \<noteq> []"
      and "JSON_parse K json = JsonObject sd" and "\<not> expiredAt sd (now_validate P)"
      and "providerOptions sd = None"
  | (exchange) c s json sd po reply st' where "\<not> truthy (error P)" and "code P = Some c" and "c \<noteq> []"
      and "state P = Some s" and "s \<noteq> []"
      and "getItem st (''mcp:auth:state_'' @ s) = Some json" and "json \<noteq> []"
      and "JSON_parse K json = JsonObject sd" and "\<not> expiredAt sd (now_validate P)"
      and "providerOptions sd = Some po" and "auth K po c st = (reply, st')"
proof (cases "truthy (error P)")
  case True
  then show ?thesis using truthy_cases that(1) by blast
next
  case noerr: False
  show ?thesis
  proof (cases "truthy (code P)")
    case False
    with noerr show ?thesis using that(2) by blast
  next
    case hascode: True
    then obtain c where c: "code P = Some c" "c \<noteq> []" using truthy_cases by blast
    show ?thesis
    proof (cases "truthy (state P)")
      case False
      with noerr hascode show ?thesis using that(3) by blast
    next
      case True
      then obtain s where s: "state P = Some s" "s \<noteq> []" using truthy_cases by blast
      show ?thesis
      proof (cases "truthy (getItem st (''mcp:auth:state_'' @ s))")
        case False
        with noerr hascode s show ?thesis using that(4) by blast
      next
        case True
        then obtain json where j: "getItem st (''mcp:auth:state_'' @ s) = Some json" "json \<noteq> []"
          using truthy_cases by blast
        show ?thesis
        proof (cases "JSON_parse K json")
          case JsonSyntaxError
          with noerr hascode s j show ?thesis using that(5) by blast
        next
          case JsonNull
          with noerr hascode s j show ?thesis using that(6) by blast
        next
          case (JsonObject sd)
          show ?thesis
          proof (cases "expiredAt sd (now_validate P)")
            case True
            with noerr hascode s j JsonObject show ?thesis using that(7) by blast
          next
            case fresh: False
            show ?thesis
            proof (cases "providerOptions sd")
              case None
              with noerr hascode s j JsonObject fresh show ?thesis using that(8) by blast
            next
              case (Some po)
              obtain reply st' where "auth K po c st = (reply, st')" by fastforce
              with noerr c s j JsonObject fresh Some show ?thesis using that(9) by blast
            qed
          qed
        qed
      qed
    qed
  qed
qed

lemma postToOpener_fields [simp]:
  "localStorage (postToOpener w m f) = localStorage f"
  "published (postToOpener w m f) = published f"
  "exchanges (postToOpener w m f) = exchanges f"
  "body (postToOpener w m f) = body f"
  "closing (postToOpener w m f) = closing f"
  "storedStateData (postToOpener w m f) = storedStateData f"
  "provider (postToOpener w m f) = provider f"
  by (cases w; simp add: postToOpener_def)+

lemma postToOpener_posted:
  "posted (postToOpener w m f) = (if w = OpenerAccepts then posted f @ [m] else posted f)"
  by (cases w; simp add: postToOpener_def)

lemma displayError_fields [simp]:
  "localStorage (displayError P m f) = localStorage f"
  "published (displayError P m f) = published f"
  "posted (displayError P m f) = posted f"
  "exchanges (displayError P m f) = exchanges f"
  "closing (displayError P m f) = closing f"
  "storedStateData (displayError P m f) = storedStateData f"
  "provider (displayError P m f) = provider f"
  "body (displayError P m f) = (if bodyWritable P then Some m else body f)"
  by (simp_all add: displayError_def)

lemma publish_fields [simp]:
  "localStorage (publish K k r f) = setItem k (JSON_stringify K r) (localStorage f)"
  "published (publish K k r f) = published f @ [(k, r)]"
  "posted (publish K k r f) = posted f"
  "exchanges (publish K k r f) = exchanges f"
  "body (publish K k r f) = body f"
  "closing (publish K k r f) = closing f"
  "storedStateData (publish K k r f) = storedStateData f"
  "provider (publish K k r f) = provider f"
  by (simp_all add: publish_def)

lemma cleanup_fields [simp]:
  "published (cleanup K key f) = published f"
  "posted (cleanup K key f) = posted f"
  "exchanges (cleanup K key f) = exchanges f"
  "body (cleanup K key f) = body f"
  "closing (cleanup K key f) = closing f"
  "storedStateData (cleanup K key f) = storedStateData f"
  "provider (cleanup K key f) = provider f"
  by (simp_all add: cleanup_def Let_def split: option.splits)

lemma cleanup_removes_state:
  "getItem (localStorage (cleanup K (Some k) f)) k = None"
  by (simp add: cleanup_def Let_def store_defs split: option.splits)

lemma cleanup_removes_artifacts:
  assumes "provider f = Some p"
  shows "getItem (localStorage (cleanup K key f)) (getKey K p ''code_verifier'') = None"
    and "getItem (localStorage (cleanup K key f)) (getKey K p ''last_auth_url'') = None"
  using assms by (simp_all add: cleanup_def Let_def store_defs split: option.splits)

lemma cleanup_opener_storage:
  assumes "localStorage f = localStorage g" and "provider f = provider g"
  shows "localStorage (cleanup K key f) = localStorage (cleanup K key g)"
  using assms by (simp add: cleanup_def Let_def split: option.splits)

lemma successBranch_fields:
  "localStorage (successBranch K P key sd po f) =
     removeItem key (case authSessionId sd of None \<Rightarrow> localStorage f
       | Some sid \<Rightarrow> if sid = [] then localStorage f
           else setItem (authResultKey po sid)
                  (JSON_stringify K \<lparr>success = True, AuthResult.error = None,
                     timestamp = now_timestamp P, AuthResult.expiry = now_expiry P + 300000\<rparr>)
                  (localStorage f))"
  "published (successBranch K P key sd po f) =
     (case authSessionId sd of None \<Rightarrow> published f
       | Some sid \<Rightarrow> if sid = [] then published f
           else published f @ [(authResultKey po sid,
                  \<lparr>success = True, AuthResult.error = None,
                     timestamp = now_timestamp P, AuthResult.expiry = now_expiry P + 300000\<rparr>)])"
  "posted (successBranch K P key sd po f) =
     (if opener P = OpenerAccepts then posted f @ [McpAuthCallback True None] else posted f)"
  "exchanges (successBranch K P key sd po f) = exchanges f"
  "body (successBranch K P key sd po f) = body f"
  "closing (successBranch K P key sd po f) = True"
  by (simp_all add: successBranch_def Let_def js_defs postToOpener_posted split: option.splits)


lemma initialFrame_fields [simp]:
  "localStorage (initialFrame st) = st"
  "published (initialFrame st) = []"
  "posted (initialFrame st) = []"
  "exchanges (initialFrame st) = []"
  "body (initialFrame st) = None"
  "closing (initialFrame st) = False"
  "storedStateData (initialFrame st) = None"
  "provider (initialFrame st) = None"
  by (simp_all add: initialFrame_def)

lemma catchBlock_unpublished:
  assumes "storedStateData f = None \<or> (\<exists>sd. storedStateData f = Some sd \<and> \<not> truthy (authSessionId sd))"
  shows "catchBlock K P m f = (Completed_failure m,
           cleanup K (stateKey (state P))
             (displayError P m (postToOpener (opener P) (McpAuthCallback False (Some m)) f)))"
  using assms by (auto simp add: catchBlock_def publishError_def Let_def)

lemma catchBlock_published:
  assumes "storedStateData f = Some sd" and "authSessionId sd = Some sid" and "sid \<noteq> []"
    and "providerOptions sd = Some po"
  shows "catchBlock K P m f = (Completed_failure m,
           cleanup K (stateKey (state P))
             (displayError P m (postToOpener (opener P) (McpAuthCallback False (Some m))
               (publish K (authResultKey po sid)
                  \<lparr>success = False, AuthResult.error = Some m, timestamp = now_timestamp P,
                    AuthResult.expiry = now_expiry P + 300000\<rparr> f))))"
  using assms by (simp add: catchBlock_def publishError_def Let_def js_defs)

lemma catchBlock_uncaught:
  assumes "storedStateData f = Some sd" and "truthy (authSessionId sd)"
    and "providerOptions sd = None"
  shows "catchBlock K P m f = (Uncaught undefinedPrefixMessage, f)"
  using assms by (simp add: catchBlock_def publishError_def)

section \<open>Validation of the redirect parameters\<close>

text \<open>
  Claim C5. The checks on the redirect parameters run in a fixed order and each one stops the
  attempt: with \<^verbatim>\<open>error\<close> present the handler fails with the provider's error and
  description, whatever \<^verbatim>\<open>code\<close> and \<^verbatim>\<open>state\<close> are; otherwise with
  \<^verbatim>\<open>code\<close> absent it fails with the missing-code reason; otherwise with
  \<^verbatim>\<open>state\<close> absent it fails with the missing-state reason. In none of the three cases
  is the token exchange called. Present and absent are the handler's own tests
  (\<^verbatim>\<open>if (error)\<close>, \<^verbatim>\<open>if (!code)\<close>, \<^verbatim>\<open>if (!state)\<close>): a parameter
  given with an empty value counts as absent.
\<close>

theorem validation_order:
  "(error P = Some e \<and> e \<noteq> [] \<longrightarrow>
      fst (onMcpAuthorization K P st) = Completed_failure (oauthErrorMessage e (errorDescription P))
      \<and> exchanges (snd (onMcpAuthorization K P st)) = [])
   \<and> (\<not> truthy (error P) \<and> \<not> truthy (code P) \<longrightarrow>
      fst (onMcpAuthorization K P st) = Completed_failure missingCodeMessage
      \<and> exchanges (snd (onMcpAuthorization K P st)) = [])
   \<and> (\<not> truthy (error P) \<and> truthy (code P) \<and> \<not> truthy (state P) \<longrightarrow>
      fst (onMcpAuthorization K P st) = Completed_failure missingStateMessage
      \<and> exchanges (snd (onMcpAuthorization K P st)) = [])"
  by (simp add: onMcpAuthorization_def tryBlock_oauth tryBlock_nocode tryBlock_nostate
      catchBlock_unpublished)

theorem validation_order_witness:
  "fst (onMcpAuthorization (stubCollaborators JsonNull (Resolved ''AUTHORIZED''))
          (samplePage None None (Some ''server_error'') None 1000) sampleStore)
     = Completed_failure ''OAuth error: server_error - No description provided.''
   \<and> fst (onMcpAuthorization (stubCollaborators JsonNull (Resolved ''AUTHORIZED''))
          (samplePage None (Some ''s1'') None None 1000) sampleStore)
     = Completed_failure ''Authorization code not found in callback query parameters.''
   \<and> fst (onMcpAuthorization (stubCollaborators JsonNull (Resolved ''AUTHORIZED''))
          (samplePage (Some ''abc'') None None None 1000) sampleStore)
     = Completed_failure ''State parameter not found or invalid in callback query parameters.''"
  using validation_order [of "samplePage None None (Some ''server_error'') None 1000"
      "''server_error''" "stubCollaborators JsonNull (Resolved ''AUTHORIZED'')" sampleStore]
    validation_order [of "samplePage None (Some ''s1'') None None 1000"
      "''server_error''" "stubCollaborators JsonNull (Resolved ''AUTHORIZED'')" sampleStore]
    validation_order [of "samplePage (Some ''abc'') None None None 1000"
      "''server_error''" "stubCollaborators JsonNull (Resolved ''AUTHORIZED'')" sampleStore]
  by (simp add: samplePage_def truthy_def orElse_def message_defs)

section \<open>Errors reported by the authorization server\<close>

text \<open>
  Claim C1, as stated, at the scenario of the specification: the redirect is
  \<^verbatim>\<open>?error=access_denied&error_description=User+declined&state=s1\<close>, the store holds
  a pending entry for \<^verbatim>\<open>s1\<close> that parses to a record with session id
  \<^verbatim>\<open>sess1\<close> and complete provider options. The claim has a failure result published
  for \<^verbatim>\<open>sess1\<close>. The handler throws at line 27, before line 37 reads the store, so
  \<^verbatim>\<open>storedStateData\<close> is still \<^verbatim>\<open>null\<close> in the \<^verbatim>\<open>catch\<close> block and
  nothing is written.
\<close>

theorem provider_error_outcome_counterexample:
  "getItem sampleStore ''mcp:auth:state_s1'' = Some ''{stored state}''
   \<and> JSON_parse (stubCollaborators
          (JsonObject (sampleState 301000 (Some ''sess1'') (Some sampleOptions)))
          (Resolved ''AUTHORIZED'')) ''{stored state}''
       = JsonObject (sampleState 301000 (Some ''sess1'') (Some sampleOptions))
   \<and> published (snd (onMcpAuthorization
        (stubCollaborators (JsonObject (sampleState 301000 (Some ''sess1'') (Some sampleOptions)))
           (Resolved ''AUTHORIZED''))
        (samplePage None (Some ''s1'') (Some ''access_denied'') (Some ''User declined'') 1000)
        sampleStore)) = []
   \<and> getItem (localStorage (snd (onMcpAuthorization
        (stubCollaborators (JsonObject (sampleState 301000 (Some ''sess1'') (Some sampleOptions)))
           (Resolved ''AUTHORIZED''))
        (samplePage None (Some ''s1'') (Some ''access_denied'') (Some ''User declined'') 1000)
        sampleStore))) ''mcp:auth:auth_result_sess1'' = None"
  by (simp add: handler_defs sample_defs message_defs)

text \<open>
  Claim C1, amended. When \<^verbatim>\<open>error\<close> is present (with a non-empty value), the token
  exchange is not called and no result is written to the store, whether or not a matching
  pending entry carries a session id. The attempt fails with the reason
  \<^verbatim>\<open>OAuth error: <error> - <description>\<close> (\<^verbatim>\<open>No description provided.\<close>
  when there is none); that reason is posted to an opener that accepts messages and shown on
  the page when the page can be written.
\<close>

theorem provider_error_not_published:
  assumes "error P = Some e" and "e \<noteq> []"
  shows "fst (onMcpAuthorization K P st) = Completed_failure (oauthErrorMessage e (errorDescription P))
    \<and> exchanges (snd (onMcpAuthorization K P st)) = []
    \<and> published (snd (onMcpAuthorization K P st)) = []
    \<and> posted (snd (onMcpAuthorization K P st)) =
        (if opener P = OpenerAccepts
         then [McpAuthCallback False (Some (oauthErrorMessage e (errorDescription P)))] else [])
    \<and> body (snd (onMcpAuthorization K P st)) =
        (if bodyWritable P then Some (oauthErrorMessage e (errorDescription P)) else None)"
  using assms
  by (simp add: onMcpAuthorization_def tryBlock_oauth catchBlock_unpublished postToOpener_posted)

theorem provider_error_not_published_witness:
  "fst (onMcpAuthorization
        (stubCollaborators (JsonObject (sampleState 301000 (Some ''sess1'') (Some sampleOptions)))
           (Resolved ''AUTHORIZED''))
        (samplePage None (Some ''s1'') (Some ''access_denied'') (Some ''User declined'') 1000)
        sampleStore)
     = Completed_failure ''OAuth error: access_denied - User declined''
   \<and> exchanges (snd (onMcpAuthorization
        (stubCollaborators (JsonObject (sampleState 301000 (Some ''sess1'') (Some sampleOptions)))
           (Resolved ''AUTHORIZED''))
        (samplePage None (Some ''s1'') (Some ''access_denied'') (Some ''User declined'') 1000)
        sampleStore)) = []
   \<and> posted (snd (onMcpAuthorization
        (stubCollaborators (JsonObject (sampleState 301000 (Some ''sess1'') (Some sampleOptions)))
           (Resolved ''AUTHORIZED''))
        (samplePage None (Some ''s1'') (Some ''access_denied'') (Some ''User declined'') 1000)
        sampleStore))
     = [McpAuthCallback False (Some ''OAuth error: access_denied - User declined'')]"
  using provider_error_not_published [of
      "samplePage None (Some ''s1'') (Some ''access_denied'') (Some ''User declined'') 1000"
      "''access_denied''"
      "stubCollaborators (JsonObject (sampleState 301000 (Some ''sess1'') (Some sampleOptions)))
         (Resolved ''AUTHORIZED'')"
      sampleStore]
  by (simp add: samplePage_def orElse_def message_defs)

section \<open>Stored state that does not parse\<close>

text \<open>
  Claim C10. When the entry stored for the presented state exists but
  \<^verbatim>\<open>JSON.parse\<close> throws on it, the attempt fails with the parse-failure reason, the
  entry is removed by the clean-up, and no result is published: the assignment to
  \<^verbatim>\<open>storedStateData\<close> never happens, so the \<^verbatim>\<open>catch\<close> block has no session
  id, whatever the blob contained. The token exchange is not called.
\<close>

theorem unparsable_state_fails_unpublished:
  assumes "\<not> truthy (error P)" and "truthy (code P)" and "state P = Some s" and "s \<noteq> []"
    and "getItem st (''mcp:auth:state_'' @ s) = Some json" and "json \<noteq> []"
    and "JSON_parse K json = JsonSyntaxError"
  shows "fst (onMcpAuthorization K P st) = Completed_failure parseFailureMessage
    \<and> getItem (localStorage (snd (onMcpAuthorization K P st))) (''mcp:auth:state_'' @ s) = None
    \<and> published (snd (onMcpAuthorization K P st)) = []
    \<and> storedStateData (snd (onMcpAuthorization K P st)) = None
    \<and> exchanges (snd (onMcpAuthorization K P st)) = []"
proof -
  have "tryBlock K P (initialFrame st) = (Some parseFailureMessage, initialFrame st)"
    using assms by (intro tryBlock_unparsable) simp_all
  then show ?thesis
    using assms(3,4)
    by (simp add: onMcpAuthorization_def catchBlock_unpublished stateKey_def cleanup_removes_state)
qed

theorem unparsable_state_fails_unpublished_witness:
  "fst (onMcpAuthorization (stubCollaborators JsonSyntaxError (Resolved ''AUTHORIZED''))
          (samplePage (Some ''abc'') (Some ''s1'') None None 1000) sampleStore)
     = Completed_failure ''Failed to parse stored OAuth state.''
   \<and> getItem (localStorage (snd (onMcpAuthorization
          (stubCollaborators JsonSyntaxError (Resolved ''AUTHORIZED''))
          (samplePage (Some ''abc'') (Some ''s1'') None None 1000) sampleStore)))
        ''mcp:auth:state_s1'' = None
   \<and> published (snd (onMcpAuthorization
          (stubCollaborators JsonSyntaxError (Resolved ''AUTHORIZED''))
          (samplePage (Some ''abc'') (Some ''s1'') None None 1000) sampleStore)) = []"
  using unparsable_state_fails_unpublished [of
      "samplePage (Some ''abc'') (Some ''s1'') None None 1000" "''s1''" sampleStore
      "''{stored state}''" "stubCollaborators JsonSyntaxError (Resolved ''AUTHORIZED'')"]
  by (simp add: sample_defs truthy_def getItem_def message_defs)

section \<open>Independence from the opener\<close>

lemma successBranch_locals:
  "storedStateData (successBranch K P key sd po f) = storedStateData f"
  "provider (successBranch K P key sd po f) = provider f"
  by (simp_all add: successBranch_def Let_def)

lemma successBranch_opener:
  "localStorage (successBranch K (P\<lparr>opener := w\<rparr>) key sd po f)
     = localStorage (successBranch K P key sd po f)"
  "published (successBranch K (P\<lparr>opener := w\<rparr>) key sd po f)
     = published (successBranch K P key sd po f)"
  by (simp_all add: successBranch_def Let_def)

lemma tryBlock_opener:
  "fst (tryBlock K (P\<lparr>opener := w\<rparr>) f) = fst (tryBlock K P f)
   \<and> localStorage (snd (tryBlock K (P\<lparr>opener := w\<rparr>) f)) = localStorage (snd (tryBlock K P f))
   \<and> published (snd (tryBlock K (P\<lparr>opener := w\<rparr>) f)) = published (snd (tryBlock K P f))
   \<and> storedStateData (snd (tryBlock K (P\<lparr>opener := w\<rparr>) f))
       = storedStateData (snd (tryBlock K P f))
   \<and> provider (snd (tryBlock K (P\<lparr>opener := w\<rparr>) f)) = provider (snd (tryBlock K P f))"
proof (cases rule: tryBlock_cases [where P = P and st = "localStorage f" and K = K])
  case (oauth e)
  then show ?thesis
    using tryBlock_oauth [of P e K f] tryBlock_oauth [of "P\<lparr>opener := w\<rparr>" e K f] by simp
next
  case nocode
  then show ?thesis
    using tryBlock_nocode [of P K f] tryBlock_nocode [of "P\<lparr>opener := w\<rparr>" K f] by simp
next
  case nostate
  then show ?thesis
    using tryBlock_nostate [of P K f] tryBlock_nostate [of "P\<lparr>opener := w\<rparr>" K f] by simp
next
  case (unknown s)
  then show ?thesis
    using tryBlock_unknown [of P s f K] tryBlock_unknown [of "P\<lparr>opener := w\<rparr>" s f K] by simp
next
  case (unparsable s json)
  then show ?thesis
    using tryBlock_unparsable [of P s f json K]
      tryBlock_unparsable [of "P\<lparr>opener := w\<rparr>" s f json K] by simp
next
  case (isnull s json)
  then show ?thesis
    using tryBlock_null [of P s f json K] tryBlock_null [of "P\<lparr>opener := w\<rparr>" s f json K]
    by simp
next
  case (expired s json sd)
  then show ?thesis
    using tryBlock_expired [of P s f json K sd]
      tryBlock_expired [of "P\<lparr>opener := w\<rparr>" s f json K sd] by simp
next
  case (nooptions s json sd)
  then show ?thesis
    using tryBlock_nooptions [of P s f json K sd]
      tryBlock_nooptions [of "P\<lparr>opener := w\<rparr>" s f json K sd] by simp
next
  case (exchange c s json sd po reply st')
  then show ?thesis
    using tryBlock_exchange [of P c s f json K sd po reply st']
      tryBlock_exchange [of "P\<lparr>opener := w\<rparr>" c s f json K sd po reply st']
    by (simp add: successBranch_opener successBranch_locals split: auth_reply.splits)
qed

lemma catchBlock_opener:
  assumes "localStorage f = localStorage g" and "published f = published g"
    and "storedStateData f = storedStateData g" and "provider f = provider g"
  shows "fst (catchBlock K (P\<lparr>opener := w\<rparr>) m f) = fst (catchBlock K P m g)
    \<and> localStorage (snd (catchBlock K (P\<lparr>opener := w\<rparr>) m f))
        = localStorage (snd (catchBlock K P m g))
    \<and> published (snd (catchBlock K (P\<lparr>opener := w\<rparr>) m f))
        = published (snd (catchBlock K P m g))"
proof (cases "storedStateData g = None
    \<or> (\<exists>sd. storedStateData g = Some sd \<and> \<not> truthy (authSessionId sd))")
  case True
  let ?F = "displayError (P\<lparr>opener := w\<rparr>) m (postToOpener w (McpAuthCallback False (Some m)) f)"
  let ?G = "displayError P m (postToOpener (opener P) (McpAuthCallback False (Some m)) g)"
  have 1: "catchBlock K (P\<lparr>opener := w\<rparr>) m f =
      (Completed_failure m, cleanup K (stateKey (state P)) ?F)"
    using catchBlock_unpublished [where f = f and K = K and P = "P\<lparr>opener := w\<rparr>" and m = m]
      True assms(3) by simp
  have 2: "catchBlock K P m g = (Completed_failure m, cleanup K (stateKey (state P)) ?G)"
    using True by (rule catchBlock_unpublished)
  have 3: "localStorage (cleanup K (stateKey (state P)) ?F)
      = localStorage (cleanup K (stateKey (state P)) ?G)"
    by (rule cleanup_opener_storage) (simp_all add: assms)
  show ?thesis
    unfolding 1 2 using 3 assms(2) by simp
next
  case False
  then obtain sd where sd: "storedStateData g = Some sd" "truthy (authSessionId sd)"
    by auto
  then obtain sid where sid: "authSessionId sd = Some sid" "sid \<noteq> []"
    using truthy_cases by blast
  have sdf: "storedStateData f = Some sd" using sd(1) assms(3) by simp
  show ?thesis
  proof (cases "providerOptions sd")
    case None
    have 1: "catchBlock K (P\<lparr>opener := w\<rparr>) m f = (Uncaught undefinedPrefixMessage, f)"
      using sdf sd(2) None by (rule catchBlock_uncaught)
    have 2: "catchBlock K P m g = (Uncaught undefinedPrefixMessage, g)"
      using sd None by (rule catchBlock_uncaught)
    show ?thesis
      unfolding 1 2 using assms(1,2) by simp
  next
    case (Some po)
    let ?r = "\<lparr>success = False, AuthResult.error = Some m, timestamp = now_timestamp P,
                    AuthResult.expiry = now_expiry P + 300000\<rparr>"
    let ?F = "displayError (P\<lparr>opener := w\<rparr>) m (postToOpener w (McpAuthCallback False (Some m))
                (publish K (authResultKey po sid) ?r f))"
    let ?G = "displayError P m (postToOpener (opener P) (McpAuthCallback False (Some m))
                (publish K (authResultKey po sid) ?r g))"
    have 1: "catchBlock K (P\<lparr>opener := w\<rparr>) m f =
        (Completed_failure m, cleanup K (stateKey (state P)) ?F)"
      using catchBlock_published [where f = f and K = K and P = "P\<lparr>opener := w\<rparr>" and m = m
          and sd = sd and sid = sid and po = po] sdf sid Some
      by simp
    have 2: "catchBlock K P m g = (Completed_failure m, cleanup K (stateKey (state P)) ?G)"
      using sd(1) sid Some by (rule catchBlock_published)
    have 3: "localStorage (cleanup K (stateKey (state P)) ?F)
        = localStorage (cleanup K (stateKey (state P)) ?G)"
      by (rule cleanup_opener_storage) (simp_all add: assms)
    show ?thesis
      unfolding 1 2 using 3 assms(2) by simp
  qed
qed

lemma onMcpAuthorization_opener:
  "fst (onMcpAuthorization K (P\<lparr>opener := w\<rparr>) st) = fst (onMcpAuthorization K P st)
   \<and> localStorage (snd (onMcpAuthorization K (P\<lparr>opener := w\<rparr>) st))
       = localStorage (snd (onMcpAuthorization K P st))
   \<and> published (snd (onMcpAuthorization K (P\<lparr>opener := w\<rparr>) st))
       = published (snd (onMcpAuthorization K P st))"
proof -
  obtain r g where g: "tryBlock K P (initialFrame st) = (r, g)" by fastforce
  obtain r' f where f: "tryBlock K (P\<lparr>opener := w\<rparr>) (initialFrame st) = (r', f)" by fastforce
  from tryBlock_opener [where K = K and P = P and w = w and f = "initialFrame st"] g f
  have same: "r' = r" "localStorage f = localStorage g" "published f = published g"
    "storedStateData f = storedStateData g" "provider f = provider g"
    by simp_all
  show ?thesis
  proof (cases r)
    case None
    with g f same show ?thesis by (simp add: onMcpAuthorization_def)
  next
    case (Some m)
    with g f same catchBlock_opener [where f = f and g = g and K = K and P = P and w = w and m = m] show ?thesis
      by (simp add: onMcpAuthorization_def)
  qed
qed

text \<open>
  Claim C7. A \<^verbatim>\<open>postMessage\<close> that throws is caught and changes nothing else: for
  every input, the run in which the opener throws ends in the same terminal state, with the
  same store and the same published results, as the run with any other opener (none, closed,
  or one that takes the message). This covers the success branch and every failure branch.
\<close>

theorem opener_failure_is_ignored:
  "fst (onMcpAuthorization K (P\<lparr>opener := OpenerThrows\<rparr>) st)
     = fst (onMcpAuthorization K (P\<lparr>opener := w\<rparr>) st)
   \<and> localStorage (snd (onMcpAuthorization K (P\<lparr>opener := OpenerThrows\<rparr>) st))
       = localStorage (snd (onMcpAuthorization K (P\<lparr>opener := w\<rparr>) st))
   \<and> published (snd (onMcpAuthorization K (P\<lparr>opener := OpenerThrows\<rparr>) st))
       = published (snd (onMcpAuthorization K (P\<lparr>opener := w\<rparr>) st))"
  using onMcpAuthorization_opener [where K = K and P = P and w = OpenerThrows and st = st]
    onMcpAuthorization_opener [where K = K and P = P and w = w and st = st]
  by simp

section \<open>Expiry of the stored state\<close>

lemma not_expiredAt: "StoredState.expiry sd = Some e \<Longrightarrow> e \<noteq> 0 \<Longrightarrow> now \<le> e \<Longrightarrow> \<not> expiredAt sd now"
  by (simp add: expiredAt_def)

lemma stateKey_Some: "s \<noteq> [] \<Longrightarrow> stateKey (Some s) = Some (''mcp:auth:state_'' @ s)"
  by (simp add: stateKey_def)

text \<open>
  Claim C2, as stated, at the boundary: a pending entry whose \<^verbatim>\<open>expiry\<close> equals the
  clock reading of the check satisfies \<^verbatim>\<open>expiry <= now\<close>, and the claim has it
  rejected as expired. Line 48 compares with \<^verbatim>\<open><\<close>, so the entry is accepted, the
  code is exchanged and the attempt succeeds.
\<close>

theorem expiry_equal_now_counterexample:
  "StoredState.expiry (sampleState 1000 (Some ''sess1'') (Some sampleOptions)) = Some 1000
   \<and> now_validate (samplePage (Some ''abc'') (Some ''s1'') None None 1000) = 1000
   \<and> fst (onMcpAuthorization
          (stubCollaborators (JsonObject (sampleState 1000 (Some ''sess1'') (Some sampleOptions)))
             (Resolved ''AUTHORIZED''))
          (samplePage (Some ''abc'') (Some ''s1'') None None 1000) sampleStore)
     = Completed_success
   \<and> exchanges (snd (onMcpAuthorization
          (stubCollaborators (JsonObject (sampleState 1000 (Some ''sess1'') (Some sampleOptions)))
             (Resolved ''AUTHORIZED''))
          (samplePage (Some ''abc'') (Some ''s1'') None None 1000) sampleStore))
     = [(sampleOptions, ''abc'')]"
  by (simp add: handler_defs sample_defs Let_def)

text \<open>
  Claim C2, amended. A pending entry whose \<^verbatim>\<open>expiry\<close> is missing, zero or strictly
  earlier than the clock reading of the check (\<^verbatim>\<open>expiry < now\<close>) is rejected: the
  attempt fails with the expired-state reason, no exchange is called, and the entry is gone
  from the store afterwards, so that a later lookup of the key finds nothing. The statement
  is for entries that, when they carry a session id, also carry provider options.
\<close>

theorem expired_state_rejected_and_removed:
  assumes "\<not> truthy (error P)" and "truthy (code P)" and "state P = Some s" and "s \<noteq> []"
    and "getItem st (''mcp:auth:state_'' @ s) = Some json" and "json \<noteq> []"
    and "JSON_parse K json = JsonObject sd"
    and "\<forall>e. StoredState.expiry sd = Some e \<longrightarrow> e = 0 \<or> e < now_validate P"
    and "truthy (authSessionId sd) \<longrightarrow> providerOptions sd \<noteq> None"
  shows "fst (onMcpAuthorization K P st) = Completed_failure expiredMessage
    \<and> getItem (localStorage (snd (onMcpAuthorization K P st))) (''mcp:auth:state_'' @ s) = None
    \<and> exchanges (snd (onMcpAuthorization K P st)) = []"
proof -
  let ?f = "(initialFrame st)\<lparr>storedStateData := Some sd,
           localStorage := removeItem (''mcp:auth:state_'' @ s) (localStorage (initialFrame st))\<rparr>"
  have "expiredAt sd (now_validate P)"
    using assms(8) by (simp add: expiredAt_def split: option.splits)
  then have tb: "tryBlock K P (initialFrame st) = (Some expiredMessage, ?f)"
    using assms by (intro tryBlock_expired) simp_all
  have key: "stateKey (state P) = Some (''mcp:auth:state_'' @ s)"
    using assms(3,4) by (simp add: stateKey_def)
  show ?thesis
  proof (cases "truthy (authSessionId sd)")
    case False
    then have "catchBlock K P expiredMessage ?f = (Completed_failure expiredMessage,
           cleanup K (stateKey (state P))
             (displayError P expiredMessage
               (postToOpener (opener P) (McpAuthCallback False (Some expiredMessage)) ?f)))"
      by (intro catchBlock_unpublished) simp
    with tb key show ?thesis
      by (simp add: onMcpAuthorization_def cleanup_removes_state)
  next
    case True
    then obtain sid where sid: "authSessionId sd = Some sid" "sid \<noteq> []"
      using truthy_cases by blast
    from True assms(9) obtain po where po: "providerOptions sd = Some po" by blast
    have "catchBlock K P expiredMessage ?f = (Completed_failure expiredMessage,
           cleanup K (stateKey (state P))
             (displayError P expiredMessage
               (postToOpener (opener P) (McpAuthCallback False (Some expiredMessage))
               (publish K (authResultKey po sid)
                  \<lparr>success = False, AuthResult.error = Some expiredMessage,
                    timestamp = now_timestamp P,
                    AuthResult.expiry = now_expiry P + 300000\<rparr> ?f))))"
      using sid po by (intro catchBlock_published) simp_all
    with tb key show ?thesis
      by (simp add: onMcpAuthorization_def cleanup_removes_state)
  qed
qed

theorem expired_state_rejected_and_removed_witness:
  "fst (onMcpAuthorization
          (stubCollaborators (JsonObject (sampleState 999 (Some ''sess1'') (Some sampleOptions)))
             (Resolved ''AUTHORIZED''))
          (samplePage (Some ''abc'') (Some ''s1'') None None 1000) sampleStore)
     = Completed_failure ''OAuth state has expired. Please try initiating authentication again.''
   \<and> getItem (localStorage (snd (onMcpAuthorization
          (stubCollaborators (JsonObject (sampleState 999 (Some ''sess1'') (Some sampleOptions)))
             (Resolved ''AUTHORIZED''))
          (samplePage (Some ''abc'') (Some ''s1'') None None 1000) sampleStore)))
        ''mcp:auth:state_s1'' = None
   \<and> exchanges (snd (onMcpAuthorization
          (stubCollaborators (JsonObject (sampleState 999 (Some ''sess1'') (Some sampleOptions)))
             (Resolved ''AUTHORIZED''))
          (samplePage (Some ''abc'') (Some ''s1'') None None 1000) sampleStore)) = []"
  using expired_state_rejected_and_removed [where
      P = "samplePage (Some ''abc'') (Some ''s1'') None None 1000" and s = "''s1''"
      and st = sampleStore and json = "''{stored state}''"
      and K = "stubCollaborators (JsonObject (sampleState 999 (Some ''sess1'') (Some sampleOptions)))
             (Resolved ''AUTHORIZED'')"
      and sd = "sampleState 999 (Some ''sess1'') (Some sampleOptions)"]
  by (simp add: sample_defs truthy_def getItem_def message_defs)

section \<open>The exchange\<close>


text \<open>
  Claim C3, as stated, at a run in which the clock advances between the two readings of
  lines 80-81: the redirect is \<^verbatim>\<open>?code=abc&state=s1\<close>, the pending entry is valid
  with session id \<^verbatim>\<open>sess1\<close>, the exchange answers \<^verbatim>\<open>AUTHORIZED\<close>, and
  \<^verbatim>\<open>Date.now()\<close> returns 2000 for \<^verbatim>\<open>timestamp\<close> and 2001 for
  \<^verbatim>\<open>expiry\<close>. The published record has \<^verbatim>\<open>timestamp\<close> 2000 and
  \<^verbatim>\<open>expiry\<close> 302001, which is not \<^verbatim>\<open>{timestamp: t, expiry: t + 300000}\<close>
  for any \<open>t\<close>.
\<close>

theorem two_clock_readings_counterexample:
  "now_timestamp ((samplePage (Some ''abc'') (Some ''s1'') None None 1000)
       \<lparr>now_timestamp := 2000, now_expiry := 2001\<rparr>) = 2000
   \<and> now_expiry ((samplePage (Some ''abc'') (Some ''s1'') None None 1000)
       \<lparr>now_timestamp := 2000, now_expiry := 2001\<rparr>) = 2001
   \<and> fst (onMcpAuthorization
          (stubCollaborators (JsonObject (sampleState 301000 (Some ''sess1'') (Some sampleOptions)))
             (Resolved ''AUTHORIZED''))
          ((samplePage (Some ''abc'') (Some ''s1'') None None 1000)
             \<lparr>now_timestamp := 2000, now_expiry := 2001\<rparr>) sampleStore)
     = Completed_success
   \<and> published (snd (onMcpAuthorization
          (stubCollaborators (JsonObject (sampleState 301000 (Some ''sess1'') (Some sampleOptions)))
             (Resolved ''AUTHORIZED''))
          ((samplePage (Some ''abc'') (Some ''s1'') None None 1000)
             \<lparr>now_timestamp := 2000, now_expiry := 2001\<rparr>) sampleStore))
     = [(''mcp:auth:auth_result_sess1'',
         \<lparr>success = True, AuthResult.error = None, timestamp = 2000, AuthResult.expiry = 302001\<rparr>)]
   \<and> (302001 :: int) \<noteq> 2000 + 300000"
  by (simp add: handler_defs sample_defs Let_def)

text \<open>
  Claim C3, amended. With a matching pending entry that is not expired, has a session id and
  has its provider options, a redirect that carries the entry's state and a code, and an
  exchange that answers \<^verbatim>\<open>AUTHORIZED\<close>, the handler ends in success, publishes
  exactly one result under the key of the entry's session id, and the pending entry is absent
  from the store afterwards. The result is
  \<^verbatim>\<open>{success: true, timestamp: t1, expiry: t2 + 300000}\<close>, where \<open>t1\<close> and
  \<open>t2\<close> are the two successive readings of \<^verbatim>\<open>Date.now()\<close> at lines 80-81; it
  is \<^verbatim>\<open>{timestamp: t, expiry: t + 300000}\<close> when both readings are \<open>t\<close>. The
  result is then in the store under its key, unless that key is the pending entry's own key,
  which the handler removes last.
\<close>

theorem successful_exchange_publishes_once:
  assumes "\<not> truthy (error P)" and "code P = Some c" and "c \<noteq> []"
    and "state P = Some s" and "s \<noteq> []"
    and "getItem st (''mcp:auth:state_'' @ s) = Some json" and "json \<noteq> []"
    and "JSON_parse K json = JsonObject sd"
    and "StoredState.expiry sd = Some e" and "e \<noteq> 0" and "now_validate P \<le> e"
    and "authSessionId sd = Some sid" and "sid \<noteq> []"
    and "providerOptions sd = Some po"
    and "auth K po c st = (Resolved ''AUTHORIZED'', st')"
  shows "fst (onMcpAuthorization K P st) = Completed_success
    \<and> published (snd (onMcpAuthorization K P st)) =
        [(storageKeyPrefix po @ '':auth_result_'' @ sid,
          \<lparr>success = True, AuthResult.error = None, timestamp = now_timestamp P,
           AuthResult.expiry = now_expiry P + 300000\<rparr>)]
    \<and> getItem (localStorage (snd (onMcpAuthorization K P st))) (''mcp:auth:state_'' @ s) = None
    \<and> (storageKeyPrefix po @ '':auth_result_'' @ sid \<noteq> ''mcp:auth:state_'' @ s \<longrightarrow>
        getItem (localStorage (snd (onMcpAuthorization K P st)))
          (storageKeyPrefix po @ '':auth_result_'' @ sid)
        = Some (JSON_stringify K \<lparr>success = True, AuthResult.error = None,
                  timestamp = now_timestamp P, AuthResult.expiry = now_expiry P + 300000\<rparr>))
    \<and> (now_timestamp P = now_expiry P \<longrightarrow>
        map (\<lambda>kr. AuthResult.expiry (snd kr) - timestamp (snd kr))
          (published (snd (onMcpAuthorization K P st))) = [300000])"
proof -
  have fresh: "\<not> expiredAt sd (now_validate P)"
    using assms(9-11) by (rule not_expiredAt)
  have "tryBlock K P (initialFrame st) =
      (None, successBranch K P (''mcp:auth:state_'' @ s) sd po
         ((initialFrame st)\<lparr>storedStateData := Some sd, provider := Some po, localStorage := st',
            exchanges := exchanges (initialFrame st) @ [(po, c)]\<rparr>))"
    using tryBlock_exchange [of P c s "initialFrame st" json K sd po "Resolved ''AUTHORIZED''" st']
      assms fresh by simp
  then show ?thesis
    using assms(12,13)
    by (simp add: onMcpAuthorization_def successBranch_fields authResultKey_def store_defs)
qed

theorem successful_exchange_publishes_once_witness:
  "fst (onMcpAuthorization
          (stubCollaborators (JsonObject (sampleState 301000 (Some ''sess1'') (Some sampleOptions)))
             (Resolved ''AUTHORIZED''))
          ((samplePage (Some ''abc'') (Some ''s1'') None None 1000)
             \<lparr>now_timestamp := 2000, now_expiry := 2001\<rparr>) sampleStore)
     = Completed_success
   \<and> published (snd (onMcpAuthorization
          (stubCollaborators (JsonObject (sampleState 301000 (Some ''sess1'') (Some sampleOptions)))
             (Resolved ''AUTHORIZED''))
          ((samplePage (Some ''abc'') (Some ''s1'') None None 1000)
             \<lparr>now_timestamp := 2000, now_expiry := 2001\<rparr>) sampleStore))
     = [(''mcp:auth:auth_result_sess1'',
         \<lparr>success = True, AuthResult.error = None, timestamp = 2000, AuthResult.expiry = 302001\<rparr>)]
   \<and> getItem (localStorage (snd (onMcpAuthorization
          (stubCollaborators (JsonObject (sampleState 301000 (Some ''sess1'') (Some sampleOptions)))
             (Resolved ''AUTHORIZED''))
          ((samplePage (Some ''abc'') (Some ''s1'') None None 1000)
             \<lparr>now_timestamp := 2000, now_expiry := 2001\<rparr>) sampleStore)))
        ''mcp:auth:state_s1'' = None
   \<and> getItem (localStorage (snd (onMcpAuthorization
          (stubCollaborators (JsonObject (sampleState 301000 (Some ''sess1'') (Some sampleOptions)))
             (Resolved ''AUTHORIZED''))
          ((samplePage (Some ''abc'') (Some ''s1'') None None 1000)
             \<lparr>now_timestamp := 2000, now_expiry := 2001\<rparr>) sampleStore)))
        ''mcp:auth:auth_result_sess1'' = Some ''{ok}''
   \<and> map (\<lambda>kr. AuthResult.expiry (snd kr) - timestamp (snd kr))
        (published (snd (onMcpAuthorization
          (stubCollaborators (JsonObject (sampleState 301000 (Some ''sess1'') (Some sampleOptions)))
             (Resolved ''AUTHORIZED''))
          (samplePage (Some ''abc'') (Some ''s1'') None None 1000) sampleStore))) = [300000]"
  using successful_exchange_publishes_once [where
      P = "(samplePage (Some ''abc'') (Some ''s1'') None None 1000)
             \<lparr>now_timestamp := 2000, now_expiry := 2001\<rparr>" and c = "''abc''"
      and s = "''s1''" and st = sampleStore and json = "''{stored state}''"
      and K = "stubCollaborators (JsonObject (sampleState 301000 (Some ''sess1'') (Some sampleOptions)))
             (Resolved ''AUTHORIZED'')"
      and sd = "sampleState 301000 (Some ''sess1'') (Some sampleOptions)" and e = 301000
      and sid = "''sess1''" and po = sampleOptions
      and st' = "sampleStore(''tokens'' \<mapsto> ''abc'')"]
    successful_exchange_publishes_once [where
      P = "samplePage (Some ''abc'') (Some ''s1'') None None 1000" and c = "''abc''"
      and s = "''s1''" and st = sampleStore and json = "''{stored state}''"
      and K = "stubCollaborators (JsonObject (sampleState 301000 (Some ''sess1'') (Some sampleOptions)))
             (Resolved ''AUTHORIZED'')"
      and sd = "sampleState 301000 (Some ''sess1'') (Some sampleOptions)" and e = 301000
      and sid = "''sess1''" and po = sampleOptions
      and st' = "sampleStore(''tokens'' \<mapsto> ''abc'')"]
  by (simp add: sample_defs truthy_def getItem_def)



text \<open>
  Claim C8. When the matching pending entry has no session id, no result is published on
  any path, and the missing session id does not fail the attempt: with the entry not
  expired, its provider options present and the exchange answering \<^verbatim>\<open>AUTHORIZED\<close>,
  the handler ends in success, removes the pending entry, schedules the window to close and
  posts the success message to an opener that accepts it.
\<close>

theorem no_session_id_no_outcome:
  assumes "\<not> truthy (error P)" and "code P = Some c" and "c \<noteq> []"
    and "state P = Some s" and "s \<noteq> []"
    and "getItem st (''mcp:auth:state_'' @ s) = Some json" and "json \<noteq> []"
    and "JSON_parse K json = JsonObject sd"
    and "authSessionId sd = None"
  shows "published (snd (onMcpAuthorization K P st)) = []
    \<and> (StoredState.expiry sd = Some e \<and> e \<noteq> 0 \<and> now_validate P \<le> e
        \<and> providerOptions sd = Some po \<and> auth K po c st = (Resolved ''AUTHORIZED'', st')
       \<longrightarrow> fst (onMcpAuthorization K P st) = Completed_success
          \<and> getItem (localStorage (snd (onMcpAuthorization K P st))) (''mcp:auth:state_'' @ s) = None
          \<and> closing (snd (onMcpAuthorization K P st))
          \<and> posted (snd (onMcpAuthorization K P st)) =
              (if opener P = OpenerAccepts then [McpAuthCallback True None] else []))"
proof -
  have code: "truthy (code P)" using assms(2,3) by (simp add: truthy_def)
  have quiet: "catchBlock K P m f = (Completed_failure m,
           cleanup K (stateKey (state P))
             (displayError P m (postToOpener (opener P) (McpAuthCallback False (Some m)) f)))"
    if "storedStateData f = Some sd" for m f
    using that assms(9) by (intro catchBlock_unpublished) (simp add: truthy_def)
  have first: "published (snd (onMcpAuthorization K P st)) = []"
  proof (cases "expiredAt sd (now_validate P)")
    case True
    then have "tryBlock K P (initialFrame st) = (Some expiredMessage,
        (initialFrame st)\<lparr>storedStateData := Some sd,
           localStorage := removeItem (''mcp:auth:state_'' @ s) (localStorage (initialFrame st))\<rparr>)"
      using assms code by (intro tryBlock_expired) simp_all
    then show ?thesis by (simp add: onMcpAuthorization_def quiet)
  next
    case fresh: False
    show ?thesis
    proof (cases "providerOptions sd")
      case None
      then have "tryBlock K P (initialFrame st) =
          (Some missingOptionsMessage, (initialFrame st)\<lparr>storedStateData := Some sd\<rparr>)"
        using assms code fresh by (intro tryBlock_nooptions) simp_all
      then show ?thesis by (simp add: onMcpAuthorization_def quiet)
    next
      case (Some po')
      obtain reply st'' where "auth K po' c st = (reply, st'')" by fastforce
      then show ?thesis
        using tryBlock_exchange [of P c s "initialFrame st" json K sd po' reply st'']
          assms fresh Some
        by (simp add: onMcpAuthorization_def quiet successBranch_fields
            split: auth_reply.splits)
    qed
  qed
  have second: "fst (onMcpAuthorization K P st) = Completed_success
          \<and> getItem (localStorage (snd (onMcpAuthorization K P st))) (''mcp:auth:state_'' @ s) = None
          \<and> closing (snd (onMcpAuthorization K P st))
          \<and> posted (snd (onMcpAuthorization K P st)) =
              (if opener P = OpenerAccepts then [McpAuthCallback True None] else [])"
    if h: "StoredState.expiry sd = Some e" "e \<noteq> 0" "now_validate P \<le> e"
      "providerOptions sd = Some po" "auth K po c st = (Resolved ''AUTHORIZED'', st')"
  proof -
    have fresh: "\<not> expiredAt sd (now_validate P)"
      using h(1-3) by (rule not_expiredAt)
    show ?thesis
      using tryBlock_exchange [of P c s "initialFrame st" json K sd po "Resolved ''AUTHORIZED''" st']
        assms fresh h(4,5)
      by (simp add: onMcpAuthorization_def successBranch_fields store_defs)
  qed
  from first second show ?thesis by blast
qed

theorem no_session_id_no_outcome_witness:
  "published (snd (onMcpAuthorization
          (stubCollaborators (JsonObject (sampleState 301000 None (Some sampleOptions)))
             (Resolved ''AUTHORIZED''))
          (samplePage (Some ''abc'') (Some ''s1'') None None 1000) sampleStore)) = []
   \<and> fst (onMcpAuthorization
          (stubCollaborators (JsonObject (sampleState 301000 None (Some sampleOptions)))
             (Resolved ''AUTHORIZED''))
          (samplePage (Some ''abc'') (Some ''s1'') None None 1000) sampleStore)
     = Completed_success
   \<and> getItem (localStorage (snd (onMcpAuthorization
          (stubCollaborators (JsonObject (sampleState 301000 None (Some sampleOptions)))
             (Resolved ''AUTHORIZED''))
          (samplePage (Some ''abc'') (Some ''s1'') None None 1000) sampleStore)))
        ''mcp:auth:state_s1'' = None
   \<and> posted (snd (onMcpAuthorization
          (stubCollaborators (JsonObject (sampleState 301000 None (Some sampleOptions)))
             (Resolved ''AUTHORIZED''))
          (samplePage (Some ''abc'') (Some ''s1'') None None 1000) sampleStore))
     = [McpAuthCallback True None]"
  using no_session_id_no_outcome [where
      P = "samplePage (Some ''abc'') (Some ''s1'') None None 1000" and c = "''abc''"
      and s = "''s1''" and st = sampleStore and json = "''{stored state}''"
      and K = "stubCollaborators (JsonObject (sampleState 301000 None (Some sampleOptions)))
             (Resolved ''AUTHORIZED'')"
      and sd = "sampleState 301000 None (Some sampleOptions)" and e = 301000
      and po = sampleOptions and st' = "sampleStore(''tokens'' \<mapsto> ''abc'')"]
  by (simp add: sample_defs truthy_def getItem_def)

section \<open>Faults that leave the handler\<close>

text \<open>
  The only exception that escapes is the TypeError of line 117: it needs a stored record
  with a session id and without provider options.
\<close>

lemma uncaught_only_without_options:
  assumes "fst (onMcpAuthorization K P st) = Uncaught m"
  shows "\<exists>sd. storedStateData (snd (onMcpAuthorization K P st)) = Some sd
           \<and> truthy (authSessionId sd) \<and> providerOptions sd = None"
proof -
  obtain r g where g: "tryBlock K P (initialFrame st) = (r, g)" by fastforce
  show ?thesis
  proof (cases r)
    case None
    with g assms show ?thesis by (simp add: onMcpAuthorization_def)
  next
    case (Some x)
    show ?thesis
    proof (cases "storedStateData g = None
        \<or> (\<exists>sd. storedStateData g = Some sd \<and> \<not> truthy (authSessionId sd))")
      case True
      with g Some assms catchBlock_unpublished [of g K P x] show ?thesis
        by (simp add: onMcpAuthorization_def)
    next
      case False
      then obtain sd where sd: "storedStateData g = Some sd" "truthy (authSessionId sd)"
        by auto
      then obtain sid where sid: "authSessionId sd = Some sid" "sid \<noteq> []"
        using truthy_cases by blast
      show ?thesis
      proof (cases "providerOptions sd")
        case None
        with g Some sd catchBlock_uncaught [of g sd K P x] show ?thesis
          by (simp add: onMcpAuthorization_def)
      next
        case (Some po)
        with g \<open>r = Some x\<close> sd sid assms catchBlock_published [of g sd sid po K P x]
        show ?thesis by (simp add: onMcpAuthorization_def)
      qed
    qed
  qed
qed

text \<open>
  Claim C9, at a stored record that has a session id and no provider options (the case
  that lines 54-56 test for), not expired, with redirect \<^verbatim>\<open>?code=abc&state=s1\<close>. Line 55 throws the error for the
  missing options, which the \<^verbatim>\<open>catch\<close> block receives; line 117 then reads
  \<^verbatim>\<open>storedStateData.providerOptions.storageKeyPrefix\<close> and throws a TypeError inside
  the \<^verbatim>\<open>catch\<close> block, which nothing catches: the handler's promise rejects, no
  result is published and no error page is written.
\<close>

theorem missing_options_fault_escapes:
  "fst (onMcpAuthorization
          (stubCollaborators (JsonObject (sampleState 301000 (Some ''sess1'') None))
             (Resolved ''AUTHORIZED''))
          (samplePage (Some ''abc'') (Some ''s1'') None None 1000) sampleStore)
     = Uncaught (''Cannot read properties of undefined (reading ''
                  @ [CHR 0x27] @ ''storageKeyPrefix'' @ [CHR 0x27] @ '')'')
   \<and> body (snd (onMcpAuthorization
          (stubCollaborators (JsonObject (sampleState 301000 (Some ''sess1'') None))
             (Resolved ''AUTHORIZED''))
          (samplePage (Some ''abc'') (Some ''s1'') None None 1000) sampleStore)) = None
   \<and> published (snd (onMcpAuthorization
          (stubCollaborators (JsonObject (sampleState 301000 (Some ''sess1'') None))
             (Resolved ''AUTHORIZED''))
          (samplePage (Some ''abc'') (Some ''s1'') None None 1000) sampleStore)) = []"
  by (simp add: handler_defs sample_defs message_defs Let_def)

section \<open>Single consumption\<close>

lemma tryBlock_normal_removes_state:
  assumes "tryBlock K P f = (None, g)" and "state P = Some s" and "s \<noteq> []"
  shows "getItem (localStorage g) (''mcp:auth:state_'' @ s) = None"
proof (cases rule: tryBlock_cases [where P = P and st = "localStorage f" and K = K])
  case (oauth e)
  then show ?thesis using tryBlock_oauth [of P e K f] assms by simp
next
  case nocode
  then show ?thesis using tryBlock_nocode [of P K f] assms by simp
next
  case nostate
  then show ?thesis using tryBlock_nostate [of P K f] assms by simp
next
  case (unknown s')
  then show ?thesis using tryBlock_unknown [of P s' f K] assms by simp
next
  case (unparsable s' json)
  then show ?thesis using tryBlock_unparsable [of P s' f json K] assms by simp
next
  case (isnull s' json)
  then show ?thesis using tryBlock_null [of P s' f json K] assms by simp
next
  case (expired s' json sd)
  then show ?thesis using tryBlock_expired [of P s' f json K sd] assms by simp
next
  case (nooptions s' json sd)
  then show ?thesis using tryBlock_nooptions [of P s' f json K sd] assms by simp
next
  case (exchange c s' json sd po reply st')
  then show ?thesis
    using tryBlock_exchange [of P c s' f json K sd po reply st'] assms
    by (auto simp add: successBranch_fields store_defs split: auth_reply.splits if_splits)
qed

lemma catchBlock_completed_removes_state:
  assumes "catchBlock K P x g = (Completed_failure m, h)" and "state P = Some s" and "s \<noteq> []"
  shows "getItem (localStorage h) (''mcp:auth:state_'' @ s) = None"
  using assms
  by (auto simp add: catchBlock_def Let_def stateKey_def cleanup_removes_state split: sum.splits)

lemma completed_removes_state:
  assumes "state P = Some s" and "s \<noteq> []"
    and "\<forall>m. fst (onMcpAuthorization K P st) \<noteq> Uncaught m"
  shows "getItem (localStorage (snd (onMcpAuthorization K P st))) (''mcp:auth:state_'' @ s) = None"
proof -
  obtain r g where g: "tryBlock K P (initialFrame st) = (r, g)" by fastforce
  show ?thesis
  proof (cases r)
    case None
    with g assms(1,2) tryBlock_normal_removes_state [of K P "initialFrame st" g s]
    show ?thesis by (simp add: onMcpAuthorization_def)
  next
    case (Some x)
    obtain t h where h: "catchBlock K P x g = (t, h)" by fastforce
    with g Some assms(3) obtain m where "t = Completed_failure m"
      by (cases t) (auto simp add: onMcpAuthorization_def catchBlock_def Let_def split: sum.splits)
    with h g Some assms(1,2) catchBlock_completed_removes_state [of K P x g m h s]
    show ?thesis by (simp add: onMcpAuthorization_def)
  qed
qed

lemma replay_after_completion:
  assumes "state P = Some s" and "s \<noteq> []"
    and "\<forall>m. fst (onMcpAuthorization K P st) \<noteq> Uncaught m"
    and "state P' = Some s" and "\<not> truthy (error P')" and "truthy (code P')"
  shows "fst (onMcpAuthorization K' P' (localStorage (snd (onMcpAuthorization K P st))))
           = Completed_failure (unknownStateMessage s)
    \<and> exchanges (snd (onMcpAuthorization K' P' (localStorage (snd (onMcpAuthorization K P st))))) = []"
proof -
  let ?st = "localStorage (snd (onMcpAuthorization K P st))"
  have "getItem ?st (''mcp:auth:state_'' @ s) = None"
    using assms(1-3) by (rule completed_removes_state)
  then have "tryBlock K' P' (initialFrame ?st) = (Some (unknownStateMessage s), initialFrame ?st)"
    using assms(2,4-6) by (intro tryBlock_unknown) (simp_all add: truthy_def)
  then show ?thesis
    by (simp add: onMcpAuthorization_def catchBlock_unpublished)
qed

text \<open>
  Claim C4, at the same stored record (session id, no provider options) and redirect
  \<^verbatim>\<open>?code=abc&state=s1\<close>, handled twice in sequence. The first invocation ends by
  the TypeError of line 117, before the clean-up of lines 158-160, so the pending entry is
  still in the store; the second invocation finds it and ends by the same TypeError, where
  the claim has it find no entry and fail with the unknown-state reason. Whenever the first
  invocation runs to its end, the entry is removed and the second one is refused, as the two
  lemmas above show.
\<close>

theorem replay_after_fault_finds_entry:
  "fst (onMcpAuthorization
          (stubCollaborators (JsonObject (sampleState 301000 (Some ''sess1'') None))
             (Resolved ''AUTHORIZED''))
          (samplePage (Some ''abc'') (Some ''s1'') None None 1000) sampleStore)
     = Uncaught undefinedPrefixMessage
   \<and> getItem (localStorage (snd (onMcpAuthorization
          (stubCollaborators (JsonObject (sampleState 301000 (Some ''sess1'') None))
             (Resolved ''AUTHORIZED''))
          (samplePage (Some ''abc'') (Some ''s1'') None None 1000) sampleStore)))
        ''mcp:auth:state_s1'' = Some ''{stored state}''
   \<and> fst (onMcpAuthorization
          (stubCollaborators (JsonObject (sampleState 301000 (Some ''sess1'') None))
             (Resolved ''AUTHORIZED''))
          (samplePage (Some ''abc'') (Some ''s1'') None None 1000)
          (localStorage (snd (onMcpAuthorization
             (stubCollaborators (JsonObject (sampleState 301000 (Some ''sess1'') None))
                (Resolved ''AUTHORIZED''))
             (samplePage (Some ''abc'') (Some ''s1'') None None 1000) sampleStore))))
     = Uncaught undefinedPrefixMessage"
  by (simp add: handler_defs sample_defs Let_def)

end
